theory Spec2Isabelle
  imports Complex_Main "HOL-Library.Word" "HOL-Library.Log_Nat"
begin

section \<open>The KLU solver wrapper of AkingSPICE\<close>

text \<open>
  This theory embeds the class \<open>UltraKLUSolver\<close> of
  \<^verbatim>\<open>src/wasm/cpp/klu_interface.cpp\<close>: its private fields, its constructor and its
  five public member functions \<open>analyzeStructure\<close>, \<open>factorizeMatrix\<close>,
  \<open>solveSystem\<close>, \<open>getStatistics\<close> and \<open>cleanup\<close>.

  The SuiteSparse routines \<open>klu_analyze\<close>, \<open>klu_factor\<close>, \<open>klu_solve\<close>,
  \<open>klu_condest\<close>, \<open>klu_free_symbolic\<close> and \<open>klu_free_numeric\<close> belong to an external
  library. What such a routine returns is an argument of the member function that calls
  it, so every theorem below holds for whatever the library answers. Every call of
  a library routine is appended, with its arguments, to the field \<open>klu_calls\<close> of the
  solver state, which makes "was the routine called, and with what" a property of the state.

  A C++ identifier ending in an underscore is not an Isabelle name; the private
  fields \<open>symbolic_\<close>, \<open>numeric_\<close>, \<open>n_\<close>, \<open>Ap_\<close>, \<open>Ai_\<close>, \<open>isAnalyzed_\<close>,
  \<open>isFactorized_\<close>, \<open>lastFactorTime_\<close> and \<open>lastSolveTime_\<close> carry the suffix
  \<open>_m\<close> instead. The field \<open>common_\<close> (the library's configuration block, whose
  \<open>status\<close> is only read by \<open>printf\<close>) and the \<open>printf\<close> calls are left out: no
  member function branches on them.
\<close>

subsection \<open>Data\<close>

text \<open>The C++ \<open>int\<close> of the WebAssembly target: 32 bits, read signed with \<open>sint\<close>.\<close>

type_synonym c_int = "32 word"

text \<open>
  A \<open>double\<close> that is only stored and copied is a \<open>real\<close>. The one quotient the
  class computes, in \<open>getStatistics\<close>, is rounded as the IEEE 754 binary64 division
  rounds it, and can have a zero divisor, so its result is an \<open>ieee\<close> value.
\<close>

datatype ieee = Finite real | PlusInf | MinusInf | NotANumber

fun ieee_minus :: "ieee \<Rightarrow> ieee" where
  "ieee_minus (Finite x) = Finite (- x)"
| "ieee_minus PlusInf = MinusInf"
| "ieee_minus MinusInf = PlusInf"
| "ieee_minus NotANumber = NotANumber"

text \<open>The integer nearest to \<open>n / d\<close>, a tie going to the even one (\<open>0 \<le> n\<close>, \<open>0 < d\<close>).\<close>

definition nearest_even :: "int \<Rightarrow> int \<Rightarrow> int" where
  "nearest_even n d =
     (let q = n div d; r = n mod d
      in if 2 * r < d then q else if d < 2 * r then q + 1 else if even q then q else q + 1)"

text \<open>
  The binary exponent of \<open>a / b\<close> for positive \<open>a\<close> and \<open>b\<close>: the \<open>e\<close> with
  \<open>2^e \<le> a / b < 2^(e+1)\<close>. The difference of the bit lengths is \<open>e\<close> or \<open>e + 1\<close>.
\<close>

definition quotient_exponent :: "int \<Rightarrow> int \<Rightarrow> int" where
  "quotient_exponent a b =
     (let k = bitlen a - bitlen b
      in if (if 0 \<le> k then b * 2 ^ nat k \<le> a else b \<le> a * 2 ^ nat (- k)) then k else k - 1)"

text \<open>
  \<open>a / b\<close> for positive \<open>a\<close> and \<open>b\<close>, rounded to the nearest binary64 number,
  ties to even: a significand \<open>m\<close> of at most 53 bits times \<open>2^(e - 52)\<close>, where the
  exponent \<open>e\<close> is not below -1022 (below it the numbers are subnormal), and infinity from
  \<open>2^1024\<close> on.
\<close>

definition round_quotient :: "int \<Rightarrow> int \<Rightarrow> ieee" where
  "round_quotient a b =
     (let e = max (quotient_exponent a b) (- 1022);
          m = (if e \<le> 52 then nearest_even (a * 2 ^ nat (52 - e)) b
               else nearest_even a (b * 2 ^ nat (e - 52)))
      in if 1024 \<le> e \<or> (e = 1023 \<and> m = 2 ^ 53) then PlusInf
         else if e \<le> 52 then Finite (real_of_int m / 2 ^ nat (52 - e))
         else Finite (real_of_int m * 2 ^ nat (e - 52)))"

text \<open>
  \<open>(double)a / (double)b\<close> for a whole number \<open>a\<close> that a double holds and a vector
  size \<open>b\<close> (below \<open>2^32\<close>, so a double holds it, and never negative, so a zero
  divisor is \<open>+0.0\<close>).
\<close>

definition double_div :: "int \<Rightarrow> nat \<Rightarrow> ieee" where
  "double_div a b =
     (if b = 0 then (if 0 < a then PlusInf else if a < 0 then MinusInf else NotANumber)
      else if a = 0 then Finite 0
      else if 0 < a then round_quotient a (int b)
      else ieee_minus (round_quotient (- a) (int b)))"

text \<open>\<open>x >= c\<close> on doubles, for a finite \<open>c\<close>: false on a NaN.\<close>

fun double_ge :: "ieee \<Rightarrow> real \<Rightarrow> bool" where
  "double_ge (Finite x) c = (c \<le> x)"
| "double_ge PlusInf c = True"
| "double_ge MinusInf c = False"
| "double_ge NotANumber c = False"

text \<open>
  The object behind a non-null \<open>klu_symbolic*\<close>: its identity and the one field the
  class reads, \<open>lnz\<close>. A null pointer is \<open>None\<close>. The structure is declared in the
  library's header; the class reads the field as \<open>(double)symbolic_->lnz\<close>, and the record
  holds the value of that double, a whole number (the library keeps a count of nonzeros
  there).
\<close>

record klu_symbolic =
  sym_id :: nat
  lnz :: int

text \<open>The object behind a non-null \<open>klu_numeric*\<close>: opaque, only its identity.\<close>

datatype klu_numeric = Numeric nat

text \<open>
  The two \<open>std::vector<double>\<close> objects in scope in \<open>solveSystem\<close>: the caller's
  \<open>rhs\<close> and the member \<open>result.solution\<close>. \<open>klu_solve\<close> overwrites the array it is
  handed, so the model says which of the two that is.
\<close>

datatype buffer = Rhs_buffer | Solution_buffer

type_synonym store = "buffer \<Rightarrow> real list"

text \<open>
  A call of a library routine with its arguments (and its result, where it has one). For
  \<open>klu_factor\<close> the values it is handed are recorded; for \<open>klu_solve\<close> the array it is
  handed and what that array holds when the call is made.
\<close>

datatype klu_call =
    Free_symbolic klu_symbolic
  | Analyze c_int "c_int list" "c_int list" "klu_symbolic option"
  | Free_numeric klu_numeric
  | Factor "c_int list" "c_int list" "real list" "klu_symbolic option" "klu_numeric option"
  | Solve "klu_symbolic option" "klu_numeric option" c_int c_int buffer "real list"
  | Condest "klu_symbolic option" "klu_numeric option"

text \<open>
  The private fields of \<open>UltraKLUSolver\<close>. The two timing fields are not
  initialised by the constructor: \<open>None\<close> is a double that was never written.
\<close>

record solver =
  symbolic_m :: "klu_symbolic option"
  numeric_m :: "klu_numeric option"
  n_m :: c_int
  Ap_m :: "c_int list"
  Ai_m :: "c_int list"
  isAnalyzed_m :: bool
  isFactorized_m :: bool
  lastFactorTime_m :: "real option"
  lastSolveTime_m :: "real option"
  klu_calls :: "klu_call list"

text \<open>
  \<open>struct SolveResult\<close>. \<open>conditionNumber\<close> and \<open>solveTime\<close> are not initialised by
  \<open>solveSystem\<close> before its early returns.
\<close>

record SolveResult =
  success :: bool
  solution :: "real list"
  errorMessage :: string
  iterations :: c_int
  conditionNumber :: "real option"
  factorizationTime :: "real option"
  solveTime :: "real option"

text \<open>\<open>struct MatrixStats\<close>.\<close>

record MatrixStats =
  rows :: c_int
  cols :: c_int
  nnz :: c_int
  fillFactor :: ieee
  isSymmetric :: bool
  conditionEstimate :: real

subsection \<open>The three error messages\<close>

text \<open>
  The messages are Chinese string literals; a \<open>std::string\<close> holds their UTF-8
  bytes. The first says "matrix not factorized, call factorizeMatrix() first".
\<close>

definition msg_not_factorized :: string where
  "msg_not_factorized =
     [CHR 0xE7, CHR 0x9F, CHR 0xA9, CHR 0xE9, CHR 0x99, CHR 0xA3, CHR 0xE6, CHR 0x9C,
      CHR 0xAA, CHR 0xE5, CHR 0x88, CHR 0x86, CHR 0xE8, CHR 0xA7, CHR 0xA3, CHR 0xEF,
      CHR 0xBC, CHR 0x8C, CHR 0xE8, CHR 0xAB, CHR 0x8B, CHR 0xE5, CHR 0x85, CHR 0x88,
      CHR 0xE8, CHR 0xAA, CHR 0xBF, CHR 0xE7, CHR 0x94, CHR 0xA8, CHR 0x20]
     @ ''factorizeMatrix()''"

text \<open>"The dimension of the right-hand-side vector does not match".\<close>

definition msg_dimension_mismatch :: string where
  "msg_dimension_mismatch =
     [CHR 0xE5, CHR 0x8F, CHR 0xB3, CHR 0xE7, CHR 0xAB, CHR 0xAF, CHR 0xE5, CHR 0x90,
      CHR 0x91, CHR 0xE9, CHR 0x87, CHR 0x8F, CHR 0xE7, CHR 0xB6, CHR 0xAD, CHR 0xE5,
      CHR 0xBA, CHR 0xA6, CHR 0xE4, CHR 0xB8, CHR 0x8D, CHR 0xE5, CHR 0x8C, CHR 0xB9,
      CHR 0xE9, CHR 0x85, CHR 0x8D]"

text \<open>"KLU solve failed (the matrix may be singular)".\<close>

definition msg_solve_failed :: string where
  "msg_solve_failed =
     ''KLU '' @
     [CHR 0xE6, CHR 0xB1, CHR 0x82, CHR 0xE8, CHR 0xA7, CHR 0xA3, CHR 0xE5, CHR 0xA4,
      CHR 0xB1, CHR 0xE6, CHR 0x95, CHR 0x97, CHR 0x20, CHR 0x28, CHR 0xE5, CHR 0x8F,
      CHR 0xAF, CHR 0xE8, CHR 0x83, CHR 0xBD, CHR 0xE7, CHR 0x9F, CHR 0xA9, CHR 0xE9,
      CHR 0x99, CHR 0xA3, CHR 0xE5, CHR 0xA5, CHR 0x87, CHR 0xE7, CHR 0x95, CHR 0xB0,
      CHR 0x29]"

subsection \<open>The library calls\<close>

text \<open>
  \<open>klu_free_symbolic(&symbolic_, &common_)\<close> and \<open>klu_free_numeric(&numeric_,
  &common_)\<close> release the object and, being handed the address of the pointer, null
  it. Both are only called under \<open>if (symbolic_)\<close>, \<open>if (numeric_)\<close>.
\<close>

definition klu_free_symbolic :: "solver \<Rightarrow> solver" where
  "klu_free_symbolic s =
     (case symbolic_m s of
        None \<Rightarrow> s
      | Some h \<Rightarrow> s\<lparr>symbolic_m := None, klu_calls := klu_calls s @ [Free_symbolic h]\<rparr>)"

definition klu_free_numeric :: "solver \<Rightarrow> solver" where
  "klu_free_numeric s =
     (case numeric_m s of
        None \<Rightarrow> s
      | Some h \<Rightarrow> s\<lparr>numeric_m := None, klu_calls := klu_calls s @ [Free_numeric h]\<rparr>)"

text \<open>
  \<open>klu_solve(Symbolic, Numeric, n, nrhs, B, &common_)\<close> works in place: it reads the
  right-hand side from the array \<open>B\<close> it is handed and leaves in \<open>B\<close> what it computes
  from it, \<open>x\<close> applied to the contents of \<open>B\<close>; it returns \<open>status\<close>.
\<close>

definition klu_solve ::
  "c_int \<Rightarrow> (real list \<Rightarrow> real list) \<Rightarrow> klu_symbolic option \<Rightarrow> klu_numeric option \<Rightarrow>
   c_int \<Rightarrow> c_int \<Rightarrow> buffer \<Rightarrow> store \<Rightarrow> solver \<Rightarrow> c_int \<times> store \<times> solver" where
  "klu_solve status x symb numr n nrhs B st s =
     (status, st(B := x (st B)),
      s\<lparr>klu_calls := klu_calls s @ [Solve symb numr n nrhs B (st B)]\<rparr>)"

subsection \<open>The member functions\<close>

text \<open>The constructor.\<close>

definition UltraKLUSolver :: solver where
  "UltraKLUSolver =
     \<lparr>symbolic_m = None, numeric_m = None, n_m = 0, Ap_m = [], Ai_m = [],
      isAnalyzed_m = False, isFactorized_m = False,
      lastFactorTime_m = None, lastSolveTime_m = None, klu_calls = []\<rparr>"

text \<open>
  \<open>analyzeStructure(n, colPointers, rowIndices)\<close>; \<open>res\<close> is what \<open>klu_analyze\<close>
  returns. The measured duration is only printed.
\<close>

definition analyzeStructure ::
  "klu_symbolic option \<Rightarrow> c_int \<Rightarrow> c_int list \<Rightarrow> c_int list \<Rightarrow> solver \<Rightarrow> bool \<times> solver" where
  "analyzeStructure res n colPointers rowIndices s =
     (let s1 = (if symbolic_m s \<noteq> None then klu_free_symbolic s else s);
          s2 = s1\<lparr>n_m := n, Ap_m := colPointers, Ai_m := rowIndices\<rparr>;
          s3 = s2\<lparr>symbolic_m := res,
                 klu_calls := klu_calls s2 @ [Analyze n (Ap_m s2) (Ai_m s2) res]\<rparr>;
          s4 = s3\<lparr>isAnalyzed_m := (symbolic_m s3 \<noteq> None), isFactorized_m := False\<rparr>
      in if \<not> isAnalyzed_m s4 then (False, s4) else (True, s4))"

text \<open>
  \<open>factorizeMatrix(values)\<close>; \<open>res\<close> is what \<open>klu_factor\<close> returns and \<open>ms\<close> the
  measured duration in milliseconds.
\<close>

definition factorizeMatrix ::
  "klu_numeric option \<Rightarrow> real \<Rightarrow> real list \<Rightarrow> solver \<Rightarrow> bool \<times> solver" where
  "factorizeMatrix res ms values s =
     (if \<not> isAnalyzed_m s then (False, s)
      else
        let s1 = (if numeric_m s \<noteq> None then klu_free_numeric s else s);
            s2 = s1\<lparr>numeric_m := res,
                   klu_calls := klu_calls s1 @
                     [Factor (Ap_m s1) (Ai_m s1) values (symbolic_m s1) res]\<rparr>;
            s3 = s2\<lparr>lastFactorTime_m := Some ms\<rparr>;
            s4 = s3\<lparr>isFactorized_m := (numeric_m s3 \<noteq> None)\<rparr>
        in if \<not> isFactorized_m s4 then (False, s4) else (True, s4))"

text \<open>
  \<open>computeResidualNorm(b, x)\<close>: a placeholder returning the constant \<open>1e-12\<close>, the
  double nearest to \<open>1 / 10^12\<close>. Its result only decides whether a warning is printed.
\<close>

definition computeResidualNorm :: "real list \<Rightarrow> real list \<Rightarrow> ieee" where
  "computeResidualNorm b x = double_div 1 (10 ^ 12)"

text \<open>
  What the library answers during one \<open>solveSystem\<close>: the return value of
  \<open>klu_solve\<close>, the contents it leaves in its array as a function of the contents it
  finds there, the measured duration in milliseconds, and the return value of
  \<open>klu_condest\<close>.
\<close>

record solve_env =
  klu_solve_status :: c_int
  klu_solve_output :: "real list \<Rightarrow> real list"
  solve_elapsed :: real
  klu_condest_value :: real

text \<open>
  A \<open>return result\<close> of \<open>solveSystem\<close>: the caller receives the result with the
  contents of \<open>result.solution\<close>, and finds its own \<open>rhs\<close> as the store holds it.
\<close>

definition return_result :: "SolveResult \<Rightarrow> store \<Rightarrow> solver \<Rightarrow> SolveResult \<times> real list \<times> solver" where
  "return_result result st s = (result\<lparr>solution := st Solution_buffer\<rparr>, st Rhs_buffer, s)"

text \<open>
  \<open>solveSystem(rhs)\<close>. The second component of the value is the caller's \<open>rhs\<close> vector
  after the call. \<open>static_cast<size_t>(n_)\<close> reads the 32 bits of \<open>n_\<close> unsigned.
\<close>

definition solveSystem ::
  "solve_env \<Rightarrow> real list \<Rightarrow> solver \<Rightarrow> SolveResult \<times> real list \<times> solver" where
  "solveSystem env rhs s =
     (let st0 = (\<lambda>b. case b of Rhs_buffer \<Rightarrow> rhs | Solution_buffer \<Rightarrow> []);
          result = \<lparr>success = False, solution = [], errorMessage = [], iterations = 0,
                    conditionNumber = None, factorizationTime = lastFactorTime_m s,
                    solveTime = None\<rparr>
      in if \<not> isFactorized_m s then
           return_result (result\<lparr>errorMessage := msg_not_factorized\<rparr>) st0 s
         else if length (st0 Rhs_buffer) \<noteq> unat (n_m s) then
           return_result (result\<lparr>errorMessage := msg_dimension_mismatch\<rparr>) st0 s
         else
           let st1 = st0(Solution_buffer := st0 Rhs_buffer);
               (solveStatus, st2, s1) =
                  klu_solve (klu_solve_status env) (klu_solve_output env)
                    (symbolic_m s) (numeric_m s) (n_m s) 1 Solution_buffer st1 s;
               s2 = s1\<lparr>lastSolveTime_m := Some (solve_elapsed env)\<rparr>;
               result1 = result\<lparr>solveTime := lastSolveTime_m s2, success := (solveStatus = 1)\<rparr>
           in if \<not> success result1 then
                return_result (result1\<lparr>errorMessage := msg_solve_failed\<rparr>) st2 s2
              else
                let result2 = result1\<lparr>conditionNumber := Some (klu_condest_value env)\<rparr>;
                    s3 = s2\<lparr>klu_calls := klu_calls s2 @ [Condest (symbolic_m s2) (numeric_m s2)]\<rparr>;
                    residualNorm = computeResidualNorm (st2 Rhs_buffer) (st2 Solution_buffer)
                in return_result (result2\<lparr>iterations := 1\<rparr>) st2 s3)"

text \<open>
  \<open>getStatistics()\<close>; \<open>cond\<close> is what \<open>klu_condest\<close> returns when it is called.
  \<open>stats.nnz = Ai_.size()\<close> narrows a \<open>size_t\<close> to \<open>int\<close>.
\<close>

definition getStatistics :: "real \<Rightarrow> solver \<Rightarrow> MatrixStats \<times> solver" where
  "getStatistics cond s =
     (let stats = \<lparr>rows = n_m s, cols = n_m s, nnz = of_nat (length (Ai_m s)),
                   fillFactor = Finite 0, isSymmetric = False, conditionEstimate = 0\<rparr>;
          stats1 = (case symbolic_m s of
                      None \<Rightarrow> stats
                    | Some h \<Rightarrow> stats\<lparr>fillFactor := double_div (lnz h) (length (Ai_m s))\<rparr>)
      in case numeric_m s of
           None \<Rightarrow> (stats1, s)
         | Some h \<Rightarrow> (stats1\<lparr>conditionEstimate := cond\<rparr>,
                       s\<lparr>klu_calls := klu_calls s @ [Condest (symbolic_m s) (numeric_m s)]\<rparr>))"

text \<open>\<open>cleanup()\<close>.\<close>

definition cleanup :: "solver \<Rightarrow> solver" where
  "cleanup s =
     (let s1 = (if numeric_m s \<noteq> None then (klu_free_numeric s)\<lparr>numeric_m := None\<rparr> else s);
          s2 = (if symbolic_m s1 \<noteq> None then (klu_free_symbolic s1)\<lparr>symbolic_m := None\<rparr> else s1)
      in s2\<lparr>isAnalyzed_m := False, isFactorized_m := False\<rparr>)"

subsection \<open>The states of the specification\<close>

text \<open>
  The specification names three states. The class has no such field; the state is read
  off the two flags.
\<close>

datatype phase = Empty | Analyzed | Factorized

definition state_of :: "solver \<Rightarrow> phase" where
  "state_of s =
     (if isFactorized_m s then Factorized else if isAnalyzed_m s then Analyzed else Empty)"

text \<open>
  A public operation together with what the library answers during it, and the run of
  a sequence of operations on a solver.
\<close>

datatype operation =
    AnalyzeStructure "klu_symbolic option" c_int "c_int list" "c_int list"
  | FactorizeMatrix "klu_numeric option" real "real list"
  | SolveSystem solve_env "real list"
  | GetStatistics real
  | Cleanup

fun step :: "solver \<Rightarrow> operation \<Rightarrow> solver" where
  "step s (AnalyzeStructure res n colPointers rowIndices) =
     snd (analyzeStructure res n colPointers rowIndices s)"
| "step s (FactorizeMatrix res ms values) = snd (factorizeMatrix res ms values s)"
| "step s (SolveSystem env rhs) = snd (snd (solveSystem env rhs s))"
| "step s (GetStatistics cond) = snd (getStatistics cond s)"
| "step s Cleanup = cleanup s"

definition run :: "operation list \<Rightarrow> solver" where
  "run ops = foldl step UltraKLUSolver ops"

subsection \<open>The pattern invariant of the specification\<close>

text \<open>
  The class never inspects the pattern it is given. The specification's data model calls
  a pattern valid when \<open>columnPointers\<close> has \<open>n + 1\<close> non-decreasing entries starting
  at 0, \<open>rowIndices\<close> has \<open>columnPointers[n]\<close> entries, and every row index lies in
  \<open>[0, n)\<close>. This predicate follows those words; it is used to show that an example
  pattern is one the specification admits.
\<close>

definition valid_pattern :: "c_int \<Rightarrow> c_int list \<Rightarrow> c_int list \<Rightarrow> bool" where
  "valid_pattern n columnPointers rowIndices =
     (0 \<le> sint n
      \<and> int (length columnPointers) = sint n + 1
      \<and> sint (hd columnPointers) = 0
      \<and> sorted (map sint columnPointers)
      \<and> int (length rowIndices) = sint (last columnPointers)
      \<and> list_all (\<lambda>i. 0 \<le> sint i \<and> sint i < sint n) rowIndices)"

subsection \<open>The consistency of the flags\<close>

definition flags_consistent :: "solver \<Rightarrow> bool" where
  "flags_consistent s =
     ((isFactorized_m s \<longrightarrow> isAnalyzed_m s \<and> numeric_m s \<noteq> None)
      \<and> (isAnalyzed_m s \<longleftrightarrow> symbolic_m s \<noteq> None))"

subsection \<open>The objects the library holds\<close>

text \<open>
  \<open>klu_analyze\<close> and \<open>klu_factor\<close> allocate the object they return; \<open>klu_free_symbolic\<close>
  and \<open>klu_free_numeric\<close> release the object they are given. The objects alive after
  a sequence of library calls are computed from the calls.
\<close>

record klu_heap =
  live_symbolic :: "klu_symbolic list"
  live_numeric :: "klu_numeric list"

fun klu_effect :: "klu_heap \<Rightarrow> klu_call \<Rightarrow> klu_heap" where
  "klu_effect hp (Analyze n Ap Ai (Some h)) = hp\<lparr>live_symbolic := h # live_symbolic hp\<rparr>"
| "klu_effect hp (Free_symbolic h) = hp\<lparr>live_symbolic := remove1 h (live_symbolic hp)\<rparr>"
| "klu_effect hp (Factor Ap Ai Ax symb (Some h)) = hp\<lparr>live_numeric := h # live_numeric hp\<rparr>"
| "klu_effect hp (Free_numeric h) = hp\<lparr>live_numeric := remove1 h (live_numeric hp)\<rparr>"
| "klu_effect hp c = hp"

definition heap_after :: "klu_call list \<Rightarrow> klu_heap" where
  "heap_after calls = foldl klu_effect \<lparr>live_symbolic = [], live_numeric = []\<rparr> calls"

text \<open>The objects the solver's two pointers refer to.\<close>

definition owned :: "solver \<Rightarrow> klu_heap" where
  "owned s =
     \<lparr>live_symbolic = (case symbolic_m s of None \<Rightarrow> [] | Some h \<Rightarrow> [h]),
      live_numeric = (case numeric_m s of None \<Rightarrow> [] | Some h \<Rightarrow> [h])\<rparr>"

text \<open>At most one object of each kind.\<close>

definition one_of_each :: "klu_heap \<Rightarrow> bool" where
  "one_of_each hp = (length (live_symbolic hp) \<le> 1 \<and> length (live_numeric hp) \<le> 1)"

text \<open>
  The live objects are exactly those the solver points to, and at every moment of the
  call history there was at most one of each kind.
\<close>

definition heap_consistent :: "solver \<Rightarrow> bool" where
  "heap_consistent s =
     (heap_after (klu_calls s) = owned s
      \<and> (\<forall>k. one_of_each (heap_after (take k (klu_calls s)))))"

subsection \<open>Example inputs\<close>

text \<open>
  The specification's concrete scenario: \<open>n = 3\<close>, the pattern of a diagonal matrix,
  values \<open>[2, 2, 2]\<close>. The library answers with a symbolic object whose \<open>lnz\<close> is 3
  and with a numeric object.
\<close>

definition diag3_analyzed :: solver where
  "diag3_analyzed =
     run [AnalyzeStructure (Some \<lparr>sym_id = 1, lnz = 3\<rparr>) 3 [0, 1, 2, 3] [0, 1, 2]]"

definition diag3_factorized :: solver where
  "diag3_factorized =
     run [AnalyzeStructure (Some \<lparr>sym_id = 1, lnz = 3\<rparr>) 3 [0, 1, 2, 3] [0, 1, 2],
          FactorizeMatrix (Some (Numeric 1)) (1 / 4) [2, 2, 2]]"

text \<open>
  A solve in which \<open>klu_solve\<close> reports success and halves every entry of its array, as
  the solve with the diagonal matrix of the values \<open>[2, 2, 2]\<close> does.
\<close>

definition solve_ok :: solve_env where
  "solve_ok =
     \<lparr>klu_solve_status = 1, klu_solve_output = map (\<lambda>b. b / 2), solve_elapsed = 1 / 2,
      klu_condest_value = 1\<rparr>"

text \<open>
  The factorized solver of the scenario after a second \<open>analyzeStructure\<close> with the same
  pattern: once with \<open>klu_analyze\<close> answering with a new symbolic object, once with
  \<open>klu_analyze\<close> failing.
\<close>

definition diag3_reanalyzed :: solver where
  "diag3_reanalyzed =
     snd (analyzeStructure (Some \<lparr>sym_id = 2, lnz = 3\<rparr>) 3 [0, 1, 2, 3] [0, 1, 2]
            diag3_factorized)"

definition diag3_reanalysis_failed :: solver where
  "diag3_reanalysis_failed =
     snd (analyzeStructure None 3 [0, 1, 2, 3] [0, 1, 2] diag3_factorized)"

text \<open>
  A full 2-by-2 pattern (four entries), for which the library answers with a symbolic
  object whose \<open>lnz\<close> is 3.
\<close>

definition full2_analyzed :: "bool \<times> solver" where
  "full2_analyzed =
     analyzeStructure (Some \<lparr>sym_id = 1, lnz = 3\<rparr>) 2 [0, 2, 4] [0, 1, 0, 1] UltraKLUSolver"

text \<open>The diagonal 2-by-2 pattern (two entries).\<close>

definition diag2_analyzed :: solver where
  "diag2_analyzed =
     run [AnalyzeStructure (Some \<lparr>sym_id = 1, lnz = 2\<rparr>) 2 [0, 1, 2] [0, 1]]"

section \<open>Auxiliary facts\<close>

lemma unat_of_nonneg:
  fixes w :: c_int
  assumes "0 \<le> sint w"
  shows "int (unat w) = sint w"
proof -
  from assms have nb: "\<not> bit (uint w) (31::nat)"
    by (simp add: sint_uint)
  have "sint w = take_bit 32 (uint w)"
    using nb by (simp add: sint_uint signed_take_bit_eq_take_bit_minus)
  also have "\<dots> = uint w"
    by (simp add: take_bit_int_eq_self_iff) (use uint_lt2p [of w] in simp)
  finally show ?thesis by simp
qed

lemma diag3_analyzed_eq:
  "diag3_analyzed =
     \<lparr>symbolic_m = Some \<lparr>sym_id = 1, lnz = 3\<rparr>, numeric_m = None, n_m = 3,
      Ap_m = [0, 1, 2, 3], Ai_m = [0, 1, 2], isAnalyzed_m = True, isFactorized_m = False,
      lastFactorTime_m = None, lastSolveTime_m = None,
      klu_calls = [Analyze 3 [0, 1, 2, 3] [0, 1, 2] (Some \<lparr>sym_id = 1, lnz = 3\<rparr>)]\<rparr>"
  by (simp add: diag3_analyzed_def run_def UltraKLUSolver_def analyzeStructure_def)

lemma diag3_factorized_eq:
  "diag3_factorized =
     \<lparr>symbolic_m = Some \<lparr>sym_id = 1, lnz = 3\<rparr>, numeric_m = Some (Numeric 1), n_m = 3,
      Ap_m = [0, 1, 2, 3], Ai_m = [0, 1, 2], isAnalyzed_m = True, isFactorized_m = True,
      lastFactorTime_m = Some (1 / 4), lastSolveTime_m = None,
      klu_calls =
        [Analyze 3 [0, 1, 2, 3] [0, 1, 2] (Some \<lparr>sym_id = 1, lnz = 3\<rparr>),
         Factor [0, 1, 2, 3] [0, 1, 2] [2, 2, 2] (Some \<lparr>sym_id = 1, lnz = 3\<rparr>)
           (Some (Numeric 1))]\<rparr>"
  by (simp add: diag3_factorized_def run_def UltraKLUSolver_def analyzeStructure_def
      factorizeMatrix_def)

lemma diag2_analyzed_eq:
  "diag2_analyzed =
     \<lparr>symbolic_m = Some \<lparr>sym_id = 1, lnz = 2\<rparr>, numeric_m = None, n_m = 2,
      Ap_m = [0, 1, 2], Ai_m = [0, 1], isAnalyzed_m = True, isFactorized_m = False,
      lastFactorTime_m = None, lastSolveTime_m = None,
      klu_calls = [Analyze 2 [0, 1, 2] [0, 1] (Some \<lparr>sym_id = 1, lnz = 2\<rparr>)]\<rparr>"
  by (simp add: diag2_analyzed_def run_def UltraKLUSolver_def analyzeStructure_def)

text \<open>Every public operation keeps the flags consistent with each other and with the handles.\<close>

lemma step_flags_consistent:
  assumes "flags_consistent s"
  shows "flags_consistent (step s op)"
proof (cases op)
  case (AnalyzeStructure res n cp ri)
  then show ?thesis
    by (simp add: flags_consistent_def analyzeStructure_def Let_def)
next
  case (FactorizeMatrix res ms vs)
  with assms show ?thesis
    by (auto simp add: flags_consistent_def factorizeMatrix_def Let_def klu_free_numeric_def
        split: option.splits)
next
  case (SolveSystem env rhs)
  with assms show ?thesis
    by (auto simp add: flags_consistent_def solveSystem_def return_result_def klu_solve_def
        Let_def)
next
  case (GetStatistics c)
  with assms show ?thesis
    by (auto simp add: flags_consistent_def getStatistics_def Let_def split: option.splits)
next
  case Cleanup
  then show ?thesis
    by (simp add: flags_consistent_def cleanup_def Let_def klu_free_symbolic_def
        klu_free_numeric_def split: option.splits)
qed

lemma run_snoc: "run (ops @ [op]) = step (run ops) op"
  by (simp add: run_def)

lemma run_flags_consistent: "flags_consistent (run ops)"
proof (induction ops rule: rev_induct)
  case Nil
  show ?case
    by (simp add: run_def UltraKLUSolver_def flags_consistent_def)
next
  case (snoc op ops)
  then show ?case
    by (simp add: run_snoc step_flags_consistent)
qed

text \<open>
  On a solver that public operations can produce, the three states of the specification
  are told apart by the flags the member functions test: \<open>solveSystem\<close> proceeds in
  state \<open>Factorized\<close> only, \<open>factorizeMatrix\<close> in every state but \<open>Empty\<close>.
\<close>

lemma state_of_Factorized_iff: "state_of s = Factorized \<longleftrightarrow> isFactorized_m s"
  by (simp add: state_of_def)

lemma state_of_run_Empty_iff: "state_of (run ops) = Empty \<longleftrightarrow> \<not> isAnalyzed_m (run ops)"
  using run_flags_consistent [of ops] by (auto simp add: state_of_def flags_consistent_def)

subsection \<open>The solver and the library's objects\<close>

lemma heap_after_snoc: "heap_after (cs @ [c]) = klu_effect (heap_after cs) c"
  by (simp add: heap_after_def)

lemma take_snoc_cases: "take k (cs @ [c]) = (if k \<le> length cs then take k cs else cs @ [c])"
  by simp

lemma history_snoc:
  "(\<forall>k. one_of_each (heap_after (take k (cs @ [c]))))
     \<longleftrightarrow> (\<forall>k. one_of_each (heap_after (take k cs))) \<and> one_of_each (heap_after (cs @ [c]))"
  (is "?L \<longleftrightarrow> ?R")
proof
  assume l: ?L
  have "one_of_each (heap_after (take k cs))" for k
  proof (cases "k \<le> length cs")
    case True
    with l [rule_format, of k] show ?thesis by simp
  next
    case False
    with l [rule_format, of "length cs"] show ?thesis by simp
  qed
  moreover from l [rule_format, of "Suc (length cs)"] have "one_of_each (heap_after (cs @ [c]))"
    by simp
  ultimately show ?R by simp
next
  assume ?R
  then show ?L by (simp add: take_snoc_cases del: take_append)
qed

lemma owned_one_of_each: "one_of_each (owned s)"
  by (simp add: owned_def one_of_each_def split: option.splits)

text \<open>
  One more library call keeps the solver consistent with the library's objects when the
  solver's pointers afterwards name what the call leaves alive.
\<close>

lemma heap_consistent_step:
  assumes "heap_consistent s"
    and "klu_calls s' = klu_calls s @ [c]"
    and "klu_effect (owned s) c = owned s'"
  shows "heap_consistent s'"
  using assms
  by (simp add: heap_consistent_def history_snoc heap_after_snoc owned_one_of_each del: take_append)

lemma heap_consistent_same:
  assumes "heap_consistent s"
    and "klu_calls s' = klu_calls s"
    and "owned s' = owned s"
  shows "heap_consistent s'"
  using assms by (simp add: heap_consistent_def)

lemma free_symbolic_consistent:
  assumes "heap_consistent s"
  shows "heap_consistent (klu_free_symbolic s)"
proof (cases "symbolic_m s")
  case None
  with assms show ?thesis by (simp add: klu_free_symbolic_def)
next
  case (Some h)
  show ?thesis
    by (rule heap_consistent_step [OF assms, of _ "Free_symbolic h"])
       (simp_all add: klu_free_symbolic_def Some owned_def)
qed

lemma free_numeric_consistent:
  assumes "heap_consistent s"
  shows "heap_consistent (klu_free_numeric s)"
proof (cases "numeric_m s")
  case None
  with assms show ?thesis by (simp add: klu_free_numeric_def)
next
  case (Some h)
  show ?thesis
    by (rule heap_consistent_step [OF assms, of _ "Free_numeric h"])
       (simp_all add: klu_free_numeric_def Some owned_def)
qed

lemma free_symbolic_fields:
  "symbolic_m (klu_free_symbolic s) = None"
  "numeric_m (klu_free_symbolic s) = numeric_m s"
  by (simp_all add: klu_free_symbolic_def split: option.splits)

lemma free_numeric_fields:
  "numeric_m (klu_free_numeric s) = None"
  "symbolic_m (klu_free_numeric s) = symbolic_m s"
  "Ap_m (klu_free_numeric s) = Ap_m s"
  "Ai_m (klu_free_numeric s) = Ai_m s"
  by (simp_all add: klu_free_numeric_def split: option.splits)

lemma analyzeStructure_snd:
  "snd (analyzeStructure res n cp ri s) =
     (klu_free_symbolic s)\<lparr>n_m := n, Ap_m := cp, Ai_m := ri, symbolic_m := res,
        klu_calls := klu_calls (klu_free_symbolic s) @ [Analyze n cp ri res],
        isAnalyzed_m := (res \<noteq> None), isFactorized_m := False\<rparr>"
  by (simp add: analyzeStructure_def klu_free_symbolic_def Let_def split: option.splits)

lemma factorizeMatrix_snd:
  assumes "isAnalyzed_m s"
  shows "snd (factorizeMatrix res ms vs s) =
     (klu_free_numeric s)\<lparr>numeric_m := res,
        klu_calls := klu_calls (klu_free_numeric s) @ [Factor (Ap_m s) (Ai_m s) vs (symbolic_m s) res],
        lastFactorTime_m := Some ms, isFactorized_m := (res \<noteq> None)\<rparr>"
  using assms
  by (simp add: factorizeMatrix_def klu_free_numeric_def Let_def split: option.splits)

lemma analyze_consistent:
  assumes "heap_consistent s"
  shows "heap_consistent (snd (analyzeStructure res n cp ri s))"
  by (rule heap_consistent_step [OF free_symbolic_consistent [OF assms], of _ "Analyze n cp ri res"])
     (simp_all add: analyzeStructure_snd owned_def free_symbolic_fields split: option.splits)

lemma factorize_consistent:
  assumes "heap_consistent s"
  shows "heap_consistent (snd (factorizeMatrix res ms vs s))"
proof (cases "isAnalyzed_m s")
  case False
  with assms show ?thesis by (simp add: factorizeMatrix_def)
next
  case True
  show ?thesis
    by (rule heap_consistent_step [OF free_numeric_consistent [OF assms],
          of _ "Factor (Ap_m s) (Ai_m s) vs (symbolic_m s) res"])
       (simp_all add: factorizeMatrix_snd [OF True] owned_def free_numeric_fields
          split: option.splits)
qed

lemma solveSystem_calls:
  "klu_calls (snd (snd (solveSystem env rhs s))) =
     klu_calls s @
     (if isFactorized_m s \<and> length rhs = unat (n_m s)
      then Solve (symbolic_m s) (numeric_m s) (n_m s) 1 Solution_buffer rhs
           # (if klu_solve_status env = 1 then [Condest (symbolic_m s) (numeric_m s)] else [])
      else [])"
  by (simp add: solveSystem_def return_result_def klu_solve_def Let_def)

lemma solve_consistent:
  assumes "heap_consistent s"
  shows "heap_consistent (snd (snd (solveSystem env rhs s)))"
proof -
  let ?s' = "snd (snd (solveSystem env rhs s))"
  let ?solve = "Solve (symbolic_m s) (numeric_m s) (n_m s) 1 Solution_buffer rhs"
  let ?mid = "s\<lparr>klu_calls := klu_calls s @ [?solve]\<rparr>"
  have own: "owned ?s' = owned s"
    by (simp add: solveSystem_def return_result_def klu_solve_def Let_def owned_def)
  have mid: "heap_consistent ?mid"
    by (rule heap_consistent_step [OF assms, of _ ?solve]) (simp_all add: owned_def)
  consider (same) "klu_calls ?s' = klu_calls s"
    | (solve) "klu_calls ?s' = klu_calls s @ [?solve]"
    | (condest) "klu_calls ?s' = klu_calls ?mid @ [Condest (symbolic_m s) (numeric_m s)]"
    by (cases "isFactorized_m s \<and> length rhs = unat (n_m s)"; cases "klu_solve_status env = 1")
       (simp_all add: solveSystem_calls)
  then show ?thesis
  proof cases
    case same
    with assms own show ?thesis by (simp add: heap_consistent_same)
  next
    case solve
    with assms show ?thesis
      by (rule heap_consistent_step) (simp add: own)
  next
    case condest
    have "owned ?mid = owned s"
      by (simp add: owned_def)
    show ?thesis
    proof (rule heap_consistent_step [OF mid, of _ "Condest (symbolic_m s) (numeric_m s)"])
      show "klu_calls ?s' = klu_calls ?mid @ [Condest (symbolic_m s) (numeric_m s)]"
        by (rule condest)
      show "klu_effect (owned ?mid) (Condest (symbolic_m s) (numeric_m s)) = owned ?s'"
        using \<open>owned ?mid = owned s\<close> by (simp add: own)
    qed
  qed
qed

lemma statistics_consistent:
  assumes "heap_consistent s"
  shows "heap_consistent (snd (getStatistics c s))"
proof (cases "numeric_m s")
  case None
  with assms show ?thesis by (simp add: getStatistics_def Let_def)
next
  case (Some h)
  show ?thesis
    by (rule heap_consistent_step [OF assms, of _ "Condest (symbolic_m s) (numeric_m s)"])
       (simp_all add: getStatistics_def Let_def Some owned_def)
qed

lemma cleanup_eq:
  "cleanup s = (klu_free_symbolic (klu_free_numeric s))\<lparr>isAnalyzed_m := False, isFactorized_m := False\<rparr>"
  by (simp add: cleanup_def klu_free_symbolic_def klu_free_numeric_def Let_def split: option.splits)

lemma cleanup_consistent:
  assumes "heap_consistent s"
  shows "heap_consistent (cleanup s)"
  by (rule heap_consistent_same
        [OF free_symbolic_consistent [OF free_numeric_consistent [OF assms]]])
     (simp_all add: cleanup_eq owned_def)

lemma step_heap_consistent:
  assumes "heap_consistent s"
  shows "heap_consistent (step s op)"
  using assms
  by (cases op)
     (simp_all add: analyze_consistent factorize_consistent solve_consistent
        statistics_consistent cleanup_consistent)

lemma run_heap_consistent: "heap_consistent (run ops)"
proof (induction ops rule: rev_induct)
  case Nil
  show ?case
    by (simp add: run_def UltraKLUSolver_def heap_consistent_def heap_after_def owned_def
        one_of_each_def)
next
  case (snoc op ops)
  then show ?case
    by (simp add: run_snoc step_heap_consistent)
qed

text \<open>
  The library calls of \<open>analyzeStructure\<close> on a solver that public operations can
  produce: \<open>klu_free_symbolic\<close> on the existing symbolic object, if there is one, then
  \<open>klu_analyze\<close>. After the call the objects alive in the library are those the two
  pointers of the solver name, and at no moment of the call history were two symbolic or
  two numeric objects alive together.
\<close>

lemma analyzeStructure_calls:
  "klu_calls (snd (analyzeStructure res n cp ri (run ops))) =
       klu_calls (run ops)
       @ (case symbolic_m (run ops) of None \<Rightarrow> [] | Some h \<Rightarrow> [Free_symbolic h])
       @ [Analyze n cp ri res]
   \<and> symbolic_m (snd (analyzeStructure res n cp ri (run ops))) = res
   \<and> numeric_m (snd (analyzeStructure res n cp ri (run ops))) = numeric_m (run ops)
   \<and> \<not> isFactorized_m (snd (analyzeStructure res n cp ri (run ops)))
   \<and> heap_after (klu_calls (snd (analyzeStructure res n cp ri (run ops))))
       = owned (snd (analyzeStructure res n cp ri (run ops)))
   \<and> (\<forall>k. one_of_each
            (heap_after (take k (klu_calls (snd (analyzeStructure res n cp ri (run ops)))))))"
proof -
  have "heap_consistent (snd (analyzeStructure res n cp ri (run ops)))"
    by (rule analyze_consistent [OF run_heap_consistent])
  then show ?thesis
    by (simp add: heap_consistent_def analyzeStructure_snd klu_free_symbolic_def
        split: option.splits)
qed

subsection \<open>The rounded quotient at some arguments\<close>

lemma double_div_3_4: "double_div 3 4 = Finite (3 / 4)"
  by (simp add: double_div_def round_quotient_def quotient_exponent_def nearest_even_def
      bitlen_def compute_floorlog)

lemma double_div_3_3: "double_div 3 3 = Finite 1"
  by (simp add: double_div_def round_quotient_def quotient_exponent_def nearest_even_def
      bitlen_def compute_floorlog)

text \<open>A quotient that no double holds: the double nearest to 1/3 and to 1/10.\<close>

lemma double_div_1_3: "double_div 1 3 = Finite (6004799503160661 / 2 ^ 54)"
  by (simp add: double_div_def round_quotient_def quotient_exponent_def nearest_even_def
      bitlen_def compute_floorlog)

lemma double_div_1_10: "double_div 1 10 = Finite (3602879701896397 / 2 ^ 55)"
  by (simp add: double_div_def round_quotient_def quotient_exponent_def nearest_even_def
      bitlen_def compute_floorlog)

lemma double_div_by_zero:
  "double_div 3 0 = PlusInf" "double_div (- 1) 0 = MinusInf" "double_div 0 0 = NotANumber"
  by (simp_all add: double_div_def)

section \<open>Properties\<close>

subsection \<open>factorizeMatrix\<close>

text \<open>
  Claim C5. For every values vector (and whatever the library would answer), a call of
  \<open>factorizeMatrix\<close> on a solver that is not analyzed returns false and hands back
  the very same solver: no field changes, no library routine is called, no artifact is
  created, and a solver in state \<open>Empty\<close> stays in state \<open>Empty\<close>.
\<close>

theorem factorizeMatrix_not_analyzed:
  assumes "\<not> isAnalyzed_m s"
  shows "factorizeMatrix res ms values s = (False, s)"
  using assms by (simp add: factorizeMatrix_def)

theorem factorizeMatrix_not_analyzed_witness:
  "\<not> isAnalyzed_m UltraKLUSolver
   \<and> state_of UltraKLUSolver = Empty
   \<and> factorizeMatrix (Some (Numeric 1)) 2 [1, 2, 3] UltraKLUSolver = (False, UltraKLUSolver)"
  using factorizeMatrix_not_analyzed [of UltraKLUSolver "Some (Numeric 1)" 2 "[1, 2, 3]"]
  by (simp add: UltraKLUSolver_def state_of_def)

text \<open>
  Claim C4. When \<open>factorizeMatrix\<close> is called on an analyzed solver (state \<open>Analyzed\<close>
  or \<open>Factorized\<close>) and \<open>klu_factor\<close> fails, that is returns a null pointer, the call
  returns false and the solver is in state \<open>Analyzed\<close>: the symbolic handle and the
  stored pattern are what they were, a following \<open>solveSystem\<close> fails with the
  "not factorized" message, and a retry for which \<open>klu_factor\<close> answers with an object
  returns true.
\<close>

theorem factorizeMatrix_failure_stays_analyzed:
  assumes "isAnalyzed_m s"
  shows "\<not> fst (factorizeMatrix None ms values s)
     \<and> state_of (snd (factorizeMatrix None ms values s)) = Analyzed
     \<and> symbolic_m (snd (factorizeMatrix None ms values s)) = symbolic_m s
     \<and> n_m (snd (factorizeMatrix None ms values s)) = n_m s
     \<and> Ap_m (snd (factorizeMatrix None ms values s)) = Ap_m s
     \<and> Ai_m (snd (factorizeMatrix None ms values s)) = Ai_m s
     \<and> \<not> success (fst (solveSystem env rhs (snd (factorizeMatrix None ms values s))))
     \<and> errorMessage (fst (solveSystem env rhs (snd (factorizeMatrix None ms values s))))
         = msg_not_factorized
     \<and> fst (factorizeMatrix (Some h) ms' values' (snd (factorizeMatrix None ms values s)))"
  using assms
  by (simp add: factorizeMatrix_def Let_def state_of_def klu_free_numeric_def solveSystem_def
      return_result_def split: option.splits)

theorem factorizeMatrix_failure_stays_analyzed_witness:
  "state_of diag3_factorized = Factorized
   \<and> isAnalyzed_m diag3_factorized
   \<and> \<not> fst (factorizeMatrix None 1 [0, 0, 0] diag3_factorized)
   \<and> state_of (snd (factorizeMatrix None 1 [0, 0, 0] diag3_factorized)) = Analyzed
   \<and> errorMessage (fst (solveSystem solve_ok [2, 4, 6]
         (snd (factorizeMatrix None 1 [0, 0, 0] diag3_factorized)))) = msg_not_factorized"
  using factorizeMatrix_failure_stays_analyzed
    [of diag3_factorized 1 "[0, 0, 0]" solve_ok "[2, 4, 6]"]
  by (simp add: diag3_factorized_eq state_of_def)

subsection \<open>solveSystem\<close>

text \<open>
  Claim C3. For every rhs vector (and whatever the library would answer), a call of
  \<open>solveSystem\<close> on a solver that is not in state \<open>Factorized\<close> returns a result with
  \<open>success = false\<close> and the "not factorized" message, and hands back the very same
  solver: no field changes and no library routine is called.
\<close>

theorem solveSystem_not_factorized:
  assumes "state_of s \<noteq> Factorized"
  shows "\<not> success (fst (solveSystem env rhs s))
     \<and> errorMessage (fst (solveSystem env rhs s)) = msg_not_factorized
     \<and> snd (snd (solveSystem env rhs s)) = s"
proof -
  from assms have "\<not> isFactorized_m s"
    by (simp add: state_of_Factorized_iff)
  then show ?thesis
    by (simp add: solveSystem_def return_result_def)
qed

theorem solveSystem_not_factorized_witness:
  "state_of diag3_analyzed \<noteq> Factorized
   \<and> \<not> success (fst (solveSystem solve_ok [2, 4, 6] diag3_analyzed))
   \<and> errorMessage (fst (solveSystem solve_ok [2, 4, 6] diag3_analyzed)) = msg_not_factorized
   \<and> snd (snd (solveSystem solve_ok [2, 4, 6] diag3_analyzed)) = diag3_analyzed"
proof -
  have h: "state_of diag3_analyzed \<noteq> Factorized"
    by (simp add: diag3_analyzed_eq state_of_def)
  show ?thesis
    using h solveSystem_not_factorized [OF h, of solve_ok "[2, 4, 6]"] by simp
qed

text \<open>
  Claim C6. For a solver in state \<open>Factorized\<close> whose dimension \<open>n\<close> is not negative,
  a call of \<open>solveSystem\<close> with an rhs vector whose length differs from \<open>n\<close> returns
  a result with \<open>success = false\<close> and the dimension-mismatch message, and hands back
  the very same solver: no field changes and \<open>klu_solve\<close> is not called.
\<close>

theorem solveSystem_dimension_mismatch:
  assumes "state_of s = Factorized"
    and "0 \<le> sint (n_m s)"
    and "int (length rhs) \<noteq> sint (n_m s)"
  shows "\<not> success (fst (solveSystem env rhs s))
     \<and> errorMessage (fst (solveSystem env rhs s)) = msg_dimension_mismatch
     \<and> snd (snd (solveSystem env rhs s)) = s"
proof -
  from assms(1) have f: "isFactorized_m s"
    by (simp add: state_of_Factorized_iff)
  have "length rhs \<noteq> unat (n_m s)"
    using assms(2,3) unat_of_nonneg [of "n_m s"] by auto
  with f show ?thesis
    by (simp add: solveSystem_def return_result_def)
qed

theorem solveSystem_dimension_mismatch_witness:
  "state_of diag3_factorized = Factorized
   \<and> 0 \<le> sint (n_m diag3_factorized)
   \<and> int (length [2, 4 :: real]) \<noteq> sint (n_m diag3_factorized)
   \<and> \<not> success (fst (solveSystem solve_ok [2, 4] diag3_factorized))
   \<and> errorMessage (fst (solveSystem solve_ok [2, 4] diag3_factorized)) = msg_dimension_mismatch
   \<and> snd (snd (solveSystem solve_ok [2, 4] diag3_factorized)) = diag3_factorized"
proof -
  have h1: "state_of diag3_factorized = Factorized"
    by (simp add: diag3_factorized_eq state_of_def)
  have h2: "0 \<le> sint (n_m diag3_factorized)"
    by (simp add: diag3_factorized_eq)
  have h3: "int (length [2, 4 :: real]) \<noteq> sint (n_m diag3_factorized)"
    by (simp add: diag3_factorized_eq)
  show ?thesis
    using h1 h2 h3 solveSystem_dimension_mismatch [OF h1 h2 h3, of solve_ok] by simp
qed

text \<open>
  Claim C8, as the specification states it: the \<open>iterations\<close> field of every result
  of \<open>solveSystem\<close> is 1. It is 0 in the result of a call on a freshly constructed
  solver.
\<close>

theorem iterations_zero_counterexample:
  "iterations (fst (solveSystem solve_ok [2, 4, 6] UltraKLUSolver)) \<noteq> 1"
  by (simp add: solveSystem_def return_result_def UltraKLUSolver_def)

text \<open>
  Claim C8, amended. The \<open>iterations\<close> field of the result of \<open>solveSystem\<close> is 1
  when the result reports success and 0 when it reports failure.
\<close>

theorem solveSystem_iterations:
  "iterations (fst (solveSystem env rhs s))
     = (if success (fst (solveSystem env rhs s)) then 1 else 0)"
  by (simp add: solveSystem_def return_result_def Let_def klu_solve_def)

text \<open>
  Claim C9. Whatever the solver state and whatever \<open>klu_solve\<close> does with the array
  it is handed, the caller's rhs vector after \<open>solveSystem\<close> is the vector it was
  before, on every path. The solve operates on a copy: when the call reaches
  \<open>klu_solve\<close>, the array the routine is handed is that of \<open>result.solution\<close> and
  holds the entries of rhs, and what the routine leaves there, computed from those entries,
  is the \<open>solution\<close> field of the result.
\<close>

theorem solveSystem_rhs_unchanged:
  "fst (snd (solveSystem env rhs s)) = rhs
   \<and> solution (fst (solveSystem env rhs s))
       = (if isFactorized_m s \<and> length rhs = unat (n_m s) then klu_solve_output env rhs
          else [])
   \<and> klu_calls (snd (snd (solveSystem env rhs s)))
       = klu_calls s @
         (if isFactorized_m s \<and> length rhs = unat (n_m s)
          then Solve (symbolic_m s) (numeric_m s) (n_m s) 1 Solution_buffer rhs
               # (if klu_solve_status env = 1 then [Condest (symbolic_m s) (numeric_m s)]
                  else [])
          else [])"
  by (simp add: solveSystem_def return_result_def Let_def klu_solve_def)

subsection \<open>analyzeStructure and the handles\<close>

text \<open>
  Claim C10. After any sequence of public operations on a freshly constructed solver,
  whatever the library answered along the way: if \<open>isFactorized_\<close> is true then
  \<open>isAnalyzed_\<close> is true and the symbolic handle is not null.
\<close>

theorem factorized_is_analyzed:
  assumes "isFactorized_m (run ops)"
  shows "isAnalyzed_m (run ops) \<and> symbolic_m (run ops) \<noteq> None"
  using assms run_flags_consistent [of ops] by (auto simp add: flags_consistent_def)

theorem factorized_is_analyzed_witness:
  "isFactorized_m
     (run [AnalyzeStructure (Some \<lparr>sym_id = 1, lnz = 3\<rparr>) 3 [0, 1, 2, 3] [0, 1, 2],
           FactorizeMatrix (Some (Numeric 1)) (1 / 4) [2, 2, 2]])
   \<and> isAnalyzed_m
     (run [AnalyzeStructure (Some \<lparr>sym_id = 1, lnz = 3\<rparr>) 3 [0, 1, 2, 3] [0, 1, 2],
           FactorizeMatrix (Some (Numeric 1)) (1 / 4) [2, 2, 2]])
   \<and> symbolic_m
     (run [AnalyzeStructure (Some \<lparr>sym_id = 1, lnz = 3\<rparr>) 3 [0, 1, 2, 3] [0, 1, 2],
           FactorizeMatrix (Some (Numeric 1)) (1 / 4) [2, 2, 2]]) \<noteq> None"
proof -
  have h: "isFactorized_m
     (run [AnalyzeStructure (Some \<lparr>sym_id = 1, lnz = 3\<rparr>) 3 [0, 1, 2, 3] [0, 1, 2],
           FactorizeMatrix (Some (Numeric 1)) (1 / 4) [2, 2, 2]])"
    by (simp add: run_def UltraKLUSolver_def analyzeStructure_def factorizeMatrix_def)
  show ?thesis
    using h factorized_is_analyzed [OF h] by simp
qed

text \<open>
  Claim C2 says that every call of \<open>analyzeStructure\<close> releases the existing numeric
  handle along with the symbolic one, so that no superseded numeric handle survives the
  call. The member function calls \<open>klu_free_symbolic\<close> only. On the factorized solver
  of the scenario, a second \<open>analyzeStructure\<close> leaves the numeric object of the
  factorization in \<open>numeric_\<close>, not released and alive in the library, while
  \<open>isFactorized_\<close> is false. A following \<open>getStatistics\<close>, which tests
  \<open>numeric_\<close>, hands that object to \<open>klu_condest\<close> together with the new symbolic
  object, or with a null pointer when the second analysis failed.
\<close>

theorem analyzeStructure_keeps_numeric_handle:
  "state_of diag3_factorized = Factorized
   \<and> numeric_m diag3_factorized = Some (Numeric 1)
   \<and> numeric_m diag3_reanalyzed = Some (Numeric 1)
   \<and> \<not> isFactorized_m diag3_reanalyzed
   \<and> Free_numeric (Numeric 1) \<notin> set (klu_calls diag3_reanalyzed)
   \<and> live_numeric (heap_after (klu_calls diag3_reanalyzed)) = [Numeric 1]
   \<and> klu_calls (snd (getStatistics 0 diag3_reanalyzed))
       = klu_calls diag3_reanalyzed
         @ [Condest (Some \<lparr>sym_id = 2, lnz = 3\<rparr>) (Some (Numeric 1))]
   \<and> state_of diag3_reanalysis_failed = Empty
   \<and> numeric_m diag3_reanalysis_failed = Some (Numeric 1)
   \<and> Free_numeric (Numeric 1) \<notin> set (klu_calls diag3_reanalysis_failed)
   \<and> klu_calls (snd (getStatistics 0 diag3_reanalysis_failed))
       = klu_calls diag3_reanalysis_failed @ [Condest None (Some (Numeric 1))]"
  by (simp add: diag3_reanalyzed_def diag3_reanalysis_failed_def diag3_factorized_eq
      analyzeStructure_def klu_free_symbolic_def heap_after_def getStatistics_def state_of_def)


subsection \<open>getStatistics\<close>

text \<open>
  Claim C7 says that after a successful \<open>analyzeStructure\<close> on a valid pattern
  \<open>getStatistics\<close> reports a fill factor, the nonzero count of L+U divided by that of
  A, of at least 1. The member function divides the \<open>lnz\<close> field of the symbolic object
  by the number of row indices stored. For the full 2-by-2 pattern, four row indices,
  and a symbolic object whose \<open>lnz\<close> is 3, the analysis succeeds and the fill factor
  reported is 3/4.
\<close>

theorem getStatistics_fillFactor_below_one:
  "valid_pattern 2 [0, 2, 4] [0, 1, 0, 1]
   \<and> fst full2_analyzed
   \<and> fillFactor (fst (getStatistics 0 (snd full2_analyzed))) = Finite (3 / 4)
   \<and> \<not> double_ge (fillFactor (fst (getStatistics 0 (snd full2_analyzed)))) 1"
proof -
  have four: "length [0, 1, 0, 1 :: c_int] = 4"
    by simp
  have pattern: "valid_pattern 2 [0, 2, 4] [0, 1, 0, 1]"
    by (simp add: valid_pattern_def)
  have stats: "fillFactor (fst (getStatistics 0 (snd full2_analyzed))) = Finite (3 / 4)"
    by (simp add: full2_analyzed_def analyzeStructure_def getStatistics_def UltraKLUSolver_def
        four double_div_3_4 del: list.size)
  have "fst full2_analyzed"
    by (simp add: full2_analyzed_def analyzeStructure_def UltraKLUSolver_def)
  with pattern stats show ?thesis
    by simp
qed


subsection \<open>factorizeMatrix and the length of the values\<close>

text \<open>
  Claim C1 says that \<open>factorizeMatrix\<close> compares the length of the values with the
  number of row indices stored and returns false, without calling \<open>klu_factor\<close> and
  without a state change, when they differ. The member function has no such
  comparison. On the analyzed diagonal 2-by-2 pattern (two row indices), a call with
  three values hands all three to \<open>klu_factor\<close>; when that answers with an object the
  call returns true and the solver is in state \<open>Factorized\<close>.
\<close>

theorem factorizeMatrix_length_unchecked:
  "length [2, 2, 2 :: real] \<noteq> length (Ai_m diag2_analyzed)
   \<and> state_of diag2_analyzed = Analyzed
   \<and> fst (factorizeMatrix (Some (Numeric 1)) 1 [2, 2, 2] diag2_analyzed)
   \<and> state_of (snd (factorizeMatrix (Some (Numeric 1)) 1 [2, 2, 2] diag2_analyzed)) = Factorized
   \<and> klu_calls (snd (factorizeMatrix (Some (Numeric 1)) 1 [2, 2, 2] diag2_analyzed)) =
       [Analyze 2 [0, 1, 2] [0, 1] (Some \<lparr>sym_id = 1, lnz = 2\<rparr>),
        Factor [0, 1, 2] [0, 1] [2, 2, 2] (Some \<lparr>sym_id = 1, lnz = 2\<rparr>) (Some (Numeric 1))]"
  by (simp add: diag2_analyzed_eq factorizeMatrix_def state_of_def)

end
